theory Spec2Isabelle
  imports Main "HOL-Library.Word"
begin

section \<open>nRF52840 tech demo (server): a model of main.c\<close>

text \<open>
  main.c is sequential start-up code followed by two callbacks, \<open>button_handler\<close> and
  \<open>ble_evt_handler\<close>. Everything else is a call into the vendor SDK (SoftDevice, board
  support, application timer and button libraries), whose code is not part of the
  program. The model keeps
  \<^item> the program's own globals (\<open>m_conn_handle\<close>, \<open>m_adv_handle\<close>, \<open>m_adv_data\<close> with its
    two buffers, \<open>button_char_handles\<close>),
  \<^item> the state of the board's LEDs, changed only through \<open>bsp_board_led_on\<close> and
    \<open>bsp_board_led_off\<close>,
  \<^item> the list of SDK calls made so far, each with the arguments passed by value, in the
    order the program makes them.
  main.c ignores every return code, so no call has an error branch in the model.
  What the SDK writes through an out-parameter is taken from a record of the SDK's
  answers (\<open>sdk_env\<close>), which every theorem leaves arbitrary.
\<close>

type_synonym uint8_t = "8 word"
type_synonym uint16_t = "16 word"
type_synonym uint32_t = "32 word"

subsection \<open>SDK structures passed by main.c\<close>

text \<open>
  The structure declarations live in the SDK headers. Fields are named as there, with
  a prefix where two structures share a field name. A pointer field is an option
  (\<open>None\<close> is \<open>NULL\<close>) or the data it points to.
\<close>

record ble_gap_conn_sec_mode_t =
  sm :: uint8_t
  lv :: uint8_t

record ble_gap_conn_params_t =
  min_conn_interval :: uint16_t
  max_conn_interval :: uint16_t
  slave_latency :: uint16_t
  conn_sup_timeout :: uint16_t

record ble_uuid_t =
  uuid :: uint16_t
  uuid_type :: uint8_t

datatype security_req_t =
  SEC_NO_ACCESS | SEC_OPEN | SEC_JUST_WORKS | SEC_MITM | SEC_SIGNED | SEC_SIGNED_MITM

record ble_gatt_char_props_t =
  broadcast :: bool
  read :: bool
  write_wo_resp :: bool
  write' :: bool
  notify :: bool
  indicate :: bool
  auth_signed_wr :: bool

record ble_gatt_char_ext_props_t =
  reliable_wr :: bool
  wr_aux :: bool

record ble_add_char_params_t =
  char_uuid :: uint16_t
  char_uuid_type :: uint8_t
  max_len :: uint16_t
  init_len :: uint16_t
  p_init_value :: "uint8_t list option"
  is_var_len :: bool
  char_props :: ble_gatt_char_props_t
  char_ext_props :: ble_gatt_char_ext_props_t
  is_defered_read :: bool
  is_defered_write :: bool
  read_access :: security_req_t
  write_access :: security_req_t
  cccd_write_access :: security_req_t
  is_value_user :: bool
  p_user_descr :: "uint8_t list option"
  p_presentation_format :: "uint8_t list option"

record ble_gatts_char_handles_t =
  value_handle :: uint16_t
  user_desc_handle :: uint16_t
  cccd_handle :: uint16_t
  sccd_handle :: uint16_t

datatype ble_advdata_name_type_t =
  BLE_ADVDATA_NO_NAME | BLE_ADVDATA_SHORT_NAME | BLE_ADVDATA_FULL_NAME

text \<open>\<open>ble_advdata_uuid_list_t\<close> is a count and a pointer to an array: the list of its
  elements.\<close>

record ble_advdata_t =
  name_type :: ble_advdata_name_type_t
  short_name_len :: uint8_t
  include_appearance :: bool
  flags :: uint8_t
  p_tx_power_level :: "uint8_t option"
  uuids_more_available :: "ble_uuid_t list"
  uuids_complete :: "ble_uuid_t list"
  uuids_solicited :: "ble_uuid_t list"
  p_slave_conn_int :: "(uint16_t \<times> uint16_t) option"
  p_manuf_specific_data :: "uint8_t list option"
  p_service_data_array :: "uint8_t list option"
  service_data_count :: uint8_t
  include_ble_device_addr :: bool
  le_role :: uint8_t
  p_tk_value :: "uint8_t list option"
  p_sec_mgr_oob_flags :: "uint8_t option"
  p_lesc_data :: "uint8_t list option"

text \<open>\<open>ble_data_t\<close>: \<open>p_data\<close> is the content of the buffer pointed to.\<close>

record ble_data_t =
  p_data :: "uint8_t list"
  len :: uint16_t

record ble_gap_adv_data_t =
  adv_data :: ble_data_t
  scan_rsp_data :: ble_data_t

record ble_gap_adv_params_t =
  properties_type :: uint8_t
  p_peer_addr :: "uint8_t list option"
  interval :: uint32_t
  duration :: uint16_t
  max_adv_evts :: uint8_t
  filter_policy :: uint8_t
  primary_phy :: uint8_t
  secondary_phy :: uint8_t

text \<open>\<open>ble_conn_params_init_t\<close>; the two handler fields are function pointers,
  \<open>False\<close> for \<open>NULL\<close>.\<close>

record ble_conn_params_init_t =
  p_conn_params :: "ble_gap_conn_params_t option"
  first_conn_params_update_delay :: uint32_t
  next_conn_params_update_delay :: uint32_t
  max_conn_params_update_count :: uint8_t
  start_on_notify_cccd_handle :: uint16_t
  disconnect_on_fail :: bool
  evt_handler :: bool
  error_handler :: bool

text \<open>\<open>ble_gatts_hvx_params_t\<close>: \<open>hvx_len\<close> and \<open>hvx_data\<close> are what \<open>p_len\<close> and
  \<open>p_data\<close> point to.\<close>

record ble_gatts_hvx_params_t =
  hvx_handle :: uint16_t
  hvx_type :: uint8_t
  hvx_offset :: uint16_t
  hvx_len :: uint16_t
  hvx_data :: "uint8_t list"

text \<open>\<open>app_button_cfg_t\<close>; the handler field is always \<open>button_handler\<close>.\<close>

record app_button_cfg_t =
  pin_no :: uint8_t
  active_state :: bool
  pull_cfg :: uint8_t

text \<open>A BLE event, as far as \<open>ble_evt_handler\<close> reads it: \<open>header.evt_id\<close> and
  \<open>evt.gap_evt.conn_handle\<close>.\<close>

record ble_evt_t =
  evt_id :: uint16_t
  conn_handle :: uint16_t

subsection \<open>SDK constants and macros\<close>

text \<open>
  Modelled from the spec: the SDK headers that define these names are not under src/.
  The spec names the sentinel ("invalid" handle), the 100 ms and 200 ms connection
  intervals, the pressed value 1, the connected and disconnected events and the three
  LEDs; the numbers are those of the nRF5 SDK headers main.c includes. The theorems
  below use of the event, button and LED numbers only that they are distinct.
\<close>

definition BLE_CONN_HANDLE_INVALID :: uint16_t where
  "BLE_CONN_HANDLE_INVALID = 0xFFFF"

definition BLE_GAP_ADV_SET_HANDLE_NOT_SET :: uint8_t where
  "BLE_GAP_ADV_SET_HANDLE_NOT_SET = 0xFF"

definition BLE_GAP_ADV_SET_DATA_SIZE_MAX :: nat where
  "BLE_GAP_ADV_SET_DATA_SIZE_MAX = 31"

definition BLE_GAP_EVT_CONNECTED :: uint16_t where
  "BLE_GAP_EVT_CONNECTED = 0x10"

definition BLE_GAP_EVT_DISCONNECTED :: uint16_t where
  "BLE_GAP_EVT_DISCONNECTED = 0x11"

definition BLE_GATTS_SRVC_TYPE_PRIMARY :: uint8_t where
  "BLE_GATTS_SRVC_TYPE_PRIMARY = 0x01"

definition BLE_GATT_HVX_NOTIFICATION :: uint8_t where
  "BLE_GATT_HVX_NOTIFICATION = 0x01"

definition BLE_GATT_HANDLE_INVALID :: uint16_t where
  "BLE_GATT_HANDLE_INVALID = 0x0000"

definition BLE_GAP_ADV_FLAGS_LE_ONLY_GENERAL_DISC_MODE :: uint8_t where
  "BLE_GAP_ADV_FLAGS_LE_ONLY_GENERAL_DISC_MODE = 0x06"

definition BLE_GAP_PHY_1MBPS :: uint8_t where
  "BLE_GAP_PHY_1MBPS = 0x01"

definition BLE_GAP_ADV_TIMEOUT_GENERAL_UNLIMITED :: uint16_t where
  "BLE_GAP_ADV_TIMEOUT_GENERAL_UNLIMITED = 0"

definition BLE_GAP_ADV_TYPE_CONNECTABLE_SCANNABLE_UNDIRECTED :: uint8_t where
  "BLE_GAP_ADV_TYPE_CONNECTABLE_SCANNABLE_UNDIRECTED = 0x01"

definition BLE_GAP_ADV_FP_ANY :: uint8_t where
  "BLE_GAP_ADV_FP_ANY = 0x00"

definition APP_BUTTON_PUSH :: uint8_t where
  "APP_BUTTON_PUSH = 1"

definition APP_BUTTON_RELEASE :: uint8_t where
  "APP_BUTTON_RELEASE = 0"

definition BSP_BOARD_BUTTON_0 :: uint8_t where
  "BSP_BOARD_BUTTON_0 = 0"

definition BUTTON_PULL :: uint8_t where
  "BUTTON_PULL = 3"

definition BSP_INIT_LEDS :: uint32_t where
  "BSP_INIT_LEDS = 1"

definition BSP_BOARD_LED_1 :: nat where
  "BSP_BOARD_LED_1 = 1"

definition BSP_BOARD_LED_2 :: nat where
  "BSP_BOARD_LED_2 = 2"

definition BSP_BOARD_LED_3 :: nat where
  "BSP_BOARD_LED_3 = 3"

definition UNIT_1_25_MS :: nat where
  "UNIT_1_25_MS = 1250"

definition UNIT_10_MS :: nat where
  "UNIT_10_MS = 10000"

text \<open>\<open>#define MSEC_TO_UNITS(TIME, RESOLUTION) (((TIME) * 1000) / (RESOLUTION))\<close>;
  main.c stores the result in 16-bit fields.\<close>

definition MSEC_TO_UNITS :: "nat \<Rightarrow> nat \<Rightarrow> uint16_t" where
  "MSEC_TO_UNITS TIME RESOLUTION = of_nat ((TIME * 1000) div RESOLUTION)"

text \<open>\<open>BLE_GAP_CONN_SEC_MODE_SET_OPEN(ptr)\<close> sets \<open>sm\<close> and \<open>lv\<close> to 1.\<close>

definition BLE_GAP_CONN_SEC_MODE_SET_OPEN :: ble_gap_conn_sec_mode_t where
  "BLE_GAP_CONN_SEC_MODE_SET_OPEN = \<lparr>sm = 1, lv = 1\<rparr>"

subsection \<open>Definitions and constants of main.c\<close>

definition APP_BLE_OBSERVER_PRIO :: uint8_t where
  "APP_BLE_OBSERVER_PRIO = 3"

definition APP_BLE_CONN_CFG_TAG :: uint8_t where
  "APP_BLE_CONN_CFG_TAG = 1"

definition DEVICE_NAME :: string where
  "DEVICE_NAME = ''nRF52840_TechDemo''"

definition MIN_CONN_INTERVAL :: uint16_t where
  "MIN_CONN_INTERVAL = MSEC_TO_UNITS 100 UNIT_1_25_MS"

definition MAX_CONN_INTERVAL :: uint16_t where
  "MAX_CONN_INTERVAL = MSEC_TO_UNITS 200 UNIT_1_25_MS"

definition SLAVE_LATENCY :: uint16_t where
  "SLAVE_LATENCY = 0"

definition CONN_SUP_TIMEOUT :: uint16_t where
  "CONN_SUP_TIMEOUT = MSEC_TO_UNITS 4000 UNIT_10_MS"

definition APP_ADV_INTERVAL :: uint32_t where
  "APP_ADV_INTERVAL = 64"

definition APP_ADV_DURATION :: uint16_t where
  "APP_ADV_DURATION = BLE_GAP_ADV_TIMEOUT_GENERAL_UNLIMITED"

definition MAX_CONN_PARAMS_UPDATE_COUNT :: uint8_t where
  "MAX_CONN_PARAMS_UPDATE_COUNT = 3"

definition UUID_BASE :: "uint8_t list" where
  "UUID_BASE = [0x23, 0xD1, 0xBC, 0xEA, 0x5F, 0x78, 0x23, 0x15,
                0xDE, 0xEF, 0x12, 0x12, 0x00, 0x00, 0x00, 0x00]"

definition UUID_SERVICE :: uint16_t where
  "UUID_SERVICE = 0x1234"

definition UUID_BUTTON_CHAR :: uint16_t where
  "UUID_BUTTON_CHAR = 0x1234"

subsection \<open>SDK calls and the SDK's answers\<close>

text \<open>One constructor for each SDK function main.c calls, with the arguments it is
  given. A buffer passed by pointer appears as its content at the time of the call.\<close>

datatype sdk_call =
    Bsp_board_init uint32_t
  | App_timer_init
  | Nrf_sdh_enable_request
  | App_button_init "app_button_cfg_t list" nat uint32_t
  | App_button_enable
  | Nrf_sdh_ble_default_cfg_set uint8_t uint32_t
  | Nrf_sdh_ble_enable uint32_t
  | Sd_ble_gap_device_name_set ble_gap_conn_sec_mode_t string nat
  | Sd_ble_gap_ppcp_set ble_gap_conn_params_t
  | Nrf_ble_gatt_init
  | Nrf_ble_qwr_init
  | Sd_ble_uuid_vs_add "uint8_t list"
  | Sd_ble_gatts_service_add uint8_t ble_uuid_t
  | Characteristic_add uint16_t ble_add_char_params_t
  | Ble_advdata_encode ble_advdata_t ble_data_t
  | Sd_ble_gap_adv_set_configure uint8_t ble_gap_adv_data_t ble_gap_adv_params_t
  | Ble_conn_params_init ble_conn_params_init_t
  | Sd_ble_gap_adv_start uint8_t uint8_t
  | Bsp_board_led_on nat
  | Bsp_board_led_off nat
  | Sd_ble_gatts_hvx uint16_t ble_gatts_hvx_params_t
  | Nrf_ble_qwr_conn_handle_assign uint16_t

text \<open>
  What the SDK leaves in the program's variables. Each field is the value the
  variable holds when the call returns, whether the SDK wrote it or (on an error,
  which main.c does not check) left it as it was. \<open>APP_TIMER_TICKS\<close> depends on the
  project's sdk_config.h, which is not under src/. \<open>ble_advdata_encode\<close> gets the
  structure to encode and the buffer with its capacity in \<open>len\<close>, and leaves the buffer
  with the encoded length in \<open>len\<close>; the device name and the appearance it reads from
  the stack are part of the function.
\<close>

record sdk_env =
  APP_TIMER_TICKS :: "nat \<Rightarrow> uint32_t"
  ram_start_set :: uint32_t
  vs_uuid_type :: uint8_t
  new_service_handle :: uint16_t
  new_char_handles :: ble_gatts_char_handles_t
  ble_advdata_encode :: "ble_advdata_t \<Rightarrow> ble_data_t \<Rightarrow> ble_data_t"
  new_adv_handle :: uint8_t

subsection \<open>Program state\<close>

record app_state =
  m_conn_handle :: uint16_t
  m_adv_handle :: uint8_t
  m_adv_data :: ble_gap_adv_data_t
  button_char_handles :: ble_gatts_char_handles_t
  leds :: "nat \<Rightarrow> bool"
  calls :: "sdk_call list"

definition sdk :: "sdk_call \<Rightarrow> app_state \<Rightarrow> app_state" where
  "sdk c s = s\<lparr>calls := calls s @ [c]\<rparr>"

text \<open>The board's LED functions: the call is recorded and the LED changes.\<close>

definition bsp_board_led_on :: "nat \<Rightarrow> app_state \<Rightarrow> app_state" where
  "bsp_board_led_on led_idx s = sdk (Bsp_board_led_on led_idx) (s\<lparr>leds := (leds s)(led_idx := True)\<rparr>)"

definition bsp_board_led_off :: "nat \<Rightarrow> app_state \<Rightarrow> app_state" where
  "bsp_board_led_off led_idx s = sdk (Bsp_board_led_off led_idx) (s\<lparr>leds := (leds s)(led_idx := False)\<rparr>)"

text \<open>The static initialisers of main.c; both buffers are zero-filled statics of
  \<open>BLE_GAP_ADV_SET_DATA_SIZE_MAX\<close> bytes, and \<open>button_char_handles\<close> is a zeroed
  global. All LEDs are off and no call has been made.\<close>

definition boot_state :: app_state where
  "boot_state =
     \<lparr>m_conn_handle = BLE_CONN_HANDLE_INVALID,
      m_adv_handle = BLE_GAP_ADV_SET_HANDLE_NOT_SET,
      m_adv_data =
        \<lparr>adv_data = \<lparr>p_data = replicate BLE_GAP_ADV_SET_DATA_SIZE_MAX 0,
                      len = of_nat BLE_GAP_ADV_SET_DATA_SIZE_MAX\<rparr>,
         scan_rsp_data = \<lparr>p_data = replicate BLE_GAP_ADV_SET_DATA_SIZE_MAX 0,
                           len = of_nat BLE_GAP_ADV_SET_DATA_SIZE_MAX\<rparr>\<rparr>,
      button_char_handles =
        \<lparr>value_handle = 0, user_desc_handle = 0, cccd_handle = 0, sccd_handle = 0\<rparr>,
      leds = (\<lambda>_. False),
      calls = []\<rparr>"

subsection \<open>The functions of main.c\<close>

definition advertising_start :: "app_state \<Rightarrow> app_state" where
  "advertising_start s =
     bsp_board_led_on BSP_BOARD_LED_2
       (sdk (Sd_ble_gap_adv_start (m_adv_handle s) APP_BLE_CONN_CFG_TAG) s)"

text \<open>\<open>memset(&params, 0, sizeof(params))\<close>, then the four assignments; \<open>len\<close> is
  \<open>sizeof(button_state)\<close>, one byte.\<close>

definition send_button :: "uint8_t \<Rightarrow> app_state \<Rightarrow> app_state" where
  "send_button button_state s =
     sdk (Sd_ble_gatts_hvx (m_conn_handle s)
            \<lparr>hvx_handle = value_handle (button_char_handles s),
             hvx_type = BLE_GATT_HVX_NOTIFICATION,
             hvx_offset = 0,
             hvx_len = 1,
             hvx_data = [button_state]\<rparr>) s"

definition button_handler :: "uint8_t \<Rightarrow> uint8_t \<Rightarrow> app_state \<Rightarrow> app_state" where
  "button_handler pin action s =
     (if pin = BSP_BOARD_BUTTON_0 then
        send_button action
          (if action = APP_BUTTON_PUSH then bsp_board_led_on BSP_BOARD_LED_1 s
           else if action = APP_BUTTON_RELEASE then bsp_board_led_off BSP_BOARD_LED_1 s
           else s)
      else s)"

definition ble_evt_handler :: "ble_evt_t \<Rightarrow> app_state \<Rightarrow> app_state" where
  "ble_evt_handler p_ble_evt s =
     (if evt_id p_ble_evt = BLE_GAP_EVT_CONNECTED then
        (let s1 = bsp_board_led_off BSP_BOARD_LED_2 s;
             s2 = bsp_board_led_on BSP_BOARD_LED_3 s1;
             s3 = s2\<lparr>m_conn_handle := conn_handle p_ble_evt\<rparr>
         in sdk (Nrf_ble_qwr_conn_handle_assign (m_conn_handle s3)) s3)
      else if evt_id p_ble_evt = BLE_GAP_EVT_DISCONNECTED then
        (let s1 = bsp_board_led_off BSP_BOARD_LED_3 s;
             s2 = s1\<lparr>m_conn_handle := BLE_CONN_HANDLE_INVALID\<rparr>
         in advertising_start s2)
      else s)"

subsection \<open>Start-up\<close>

text \<open>\<open>memset(&x, 0, sizeof(x))\<close> on each SDK structure: every number is 0, every flag
  false, every pointer \<open>NULL\<close>, every enumeration its first value.\<close>

definition zeroed_gap_conn_params :: ble_gap_conn_params_t where
  "zeroed_gap_conn_params =
     \<lparr>min_conn_interval = 0, max_conn_interval = 0, slave_latency = 0, conn_sup_timeout = 0\<rparr>"

definition zeroed_add_char_params :: ble_add_char_params_t where
  "zeroed_add_char_params =
     \<lparr>char_uuid = 0, char_uuid_type = 0, max_len = 0, init_len = 0, p_init_value = None,
      is_var_len = False,
      char_props = \<lparr>broadcast = False, read = False, write_wo_resp = False, write' = False,
                     notify = False, indicate = False, auth_signed_wr = False\<rparr>,
      char_ext_props = \<lparr>reliable_wr = False, wr_aux = False\<rparr>,
      is_defered_read = False, is_defered_write = False,
      read_access = SEC_NO_ACCESS, write_access = SEC_NO_ACCESS,
      cccd_write_access = SEC_NO_ACCESS,
      is_value_user = False, p_user_descr = None, p_presentation_format = None\<rparr>"

definition zeroed_advdata :: ble_advdata_t where
  "zeroed_advdata =
     \<lparr>name_type = BLE_ADVDATA_NO_NAME, short_name_len = 0, include_appearance = False,
      flags = 0, p_tx_power_level = None, uuids_more_available = [], uuids_complete = [],
      uuids_solicited = [], p_slave_conn_int = None, p_manuf_specific_data = None,
      p_service_data_array = None, service_data_count = 0,
      include_ble_device_addr = False, le_role = 0, p_tk_value = None,
      p_sec_mgr_oob_flags = None, p_lesc_data = None\<rparr>"

definition zeroed_adv_params :: ble_gap_adv_params_t where
  "zeroed_adv_params =
     \<lparr>properties_type = 0, p_peer_addr = None, interval = 0, duration = 0,
      max_adv_evts = 0, filter_policy = 0, primary_phy = 0, secondary_phy = 0\<rparr>"

definition zeroed_conn_params_init :: ble_conn_params_init_t where
  "zeroed_conn_params_init =
     \<lparr>p_conn_params = None, first_conn_params_update_delay = 0,
      next_conn_params_update_delay = 0, max_conn_params_update_count = 0,
      start_on_notify_cccd_handle = 0, disconnect_on_fail = False,
      evt_handler = False, error_handler = False\<rparr>"

definition gap_params_init :: "app_state \<Rightarrow> app_state" where
  "gap_params_init s =
     (let sec_mode = BLE_GAP_CONN_SEC_MODE_SET_OPEN;
          s1 = sdk (Sd_ble_gap_device_name_set sec_mode DEVICE_NAME (length DEVICE_NAME)) s;
          gap_conn_params = zeroed_gap_conn_params
            \<lparr>min_conn_interval := MIN_CONN_INTERVAL,
             max_conn_interval := MIN_CONN_INTERVAL,
             slave_latency := SLAVE_LATENCY,
             conn_sup_timeout := CONN_SUP_TIMEOUT\<rparr>
      in sdk (Sd_ble_gap_ppcp_set gap_conn_params) s1)"

definition nrf_qwr_error_handler :: "uint32_t \<Rightarrow> app_state \<Rightarrow> app_state" where
  "nrf_qwr_error_handler nrf_error s = s"

definition services_init :: "app_state \<Rightarrow> app_state" where
  "services_init s = sdk Nrf_ble_qwr_init s"

text \<open>The four parts of \<open>advertising_init\<close>, in the order of the source: add the service,
  add the button characteristic, build and set the advertising data, initialise the
  advertising parameters. \<open>uuid_type\<close> and \<open>service_handle\<close> are locals the SDK fills.\<close>

definition advertising_init :: "sdk_env \<Rightarrow> app_state \<Rightarrow> app_state" where
  "advertising_init env s =
     (let s1 = sdk (Sd_ble_uuid_vs_add UUID_BASE) s;
          uuid_type' = vs_uuid_type env;
          ble_uuid = \<lparr>uuid = UUID_SERVICE, uuid_type = uuid_type'\<rparr>;
          s2 = sdk (Sd_ble_gatts_service_add BLE_GATTS_SRVC_TYPE_PRIMARY ble_uuid) s1;
          service_handle = new_service_handle env;

          add_char_params = zeroed_add_char_params
            \<lparr>char_uuid := UUID_BUTTON_CHAR,
             char_uuid_type := uuid_type',
             init_len := 1,
             max_len := 1,
             char_props := (char_props zeroed_add_char_params)\<lparr>read := True, notify := True\<rparr>,
             read_access := SEC_OPEN,
             cccd_write_access := SEC_OPEN\<rparr>;
          s3 = (sdk (Characteristic_add service_handle add_char_params) s2)
                 \<lparr>button_char_handles := new_char_handles env\<rparr>;

          adv_uuids = [\<lparr>uuid = UUID_SERVICE, uuid_type = uuid_type'\<rparr>];
          advdata = zeroed_advdata
            \<lparr>name_type := BLE_ADVDATA_FULL_NAME,
             include_appearance := True,
             flags := BLE_GAP_ADV_FLAGS_LE_ONLY_GENERAL_DISC_MODE\<rparr>;
          srdata = zeroed_advdata\<lparr>uuids_complete := adv_uuids\<rparr>;
          s4 = (sdk (Ble_advdata_encode advdata (adv_data (m_adv_data s3))) s3)
                 \<lparr>m_adv_data := (m_adv_data s3)
                    \<lparr>adv_data := ble_advdata_encode env advdata (adv_data (m_adv_data s3))\<rparr>\<rparr>;
          s5 = (sdk (Ble_advdata_encode srdata (scan_rsp_data (m_adv_data s4))) s4)
                 \<lparr>m_adv_data := (m_adv_data s4)
                    \<lparr>scan_rsp_data :=
                       ble_advdata_encode env srdata (scan_rsp_data (m_adv_data s4))\<rparr>\<rparr>;

          adv_params = zeroed_adv_params
            \<lparr>primary_phy := BLE_GAP_PHY_1MBPS,
             duration := APP_ADV_DURATION,
             properties_type := BLE_GAP_ADV_TYPE_CONNECTABLE_SCANNABLE_UNDIRECTED,
             p_peer_addr := None,
             filter_policy := BLE_GAP_ADV_FP_ANY,
             interval := APP_ADV_INTERVAL\<rparr>
      in (sdk (Sd_ble_gap_adv_set_configure (m_adv_handle s5) (m_adv_data s5) adv_params) s5)
           \<lparr>m_adv_handle := new_adv_handle env\<rparr>)"

definition conn_params_init :: "sdk_env \<Rightarrow> app_state \<Rightarrow> app_state" where
  "conn_params_init env s =
     (let params = zeroed_conn_params_init
            \<lparr>p_conn_params := None,
             first_conn_params_update_delay := APP_TIMER_TICKS env 20000,
             next_conn_params_update_delay := APP_TIMER_TICKS env 5000,
             max_conn_params_update_count := MAX_CONN_PARAMS_UPDATE_COUNT,
             start_on_notify_cccd_handle := BLE_GATT_HANDLE_INVALID,
             disconnect_on_fail := True\<rparr>
      in sdk (Ble_conn_params_init params) s)"

text \<open>\<open>main\<close>. \<open>bsp_board_init(BSP_INIT_LEDS)\<close> configures the LED pins and leaves the
  LEDs off. \<open>NRF_SDH_BLE_OBSERVER\<close> registers \<open>ble_evt_handler\<close> statically and is no
  call.\<close>

definition main :: "sdk_env \<Rightarrow> app_state \<Rightarrow> app_state" where
  "main env s =
     (let s1 = (sdk (Bsp_board_init BSP_INIT_LEDS) s)\<lparr>leds := (\<lambda>_. False)\<rparr>;
          s2 = sdk App_timer_init s1;
          s3 = sdk Nrf_sdh_enable_request s2;
          buttons = [\<lparr>pin_no = BSP_BOARD_BUTTON_0, active_state = False,
                      pull_cfg = BUTTON_PULL\<rparr>];
          s4 = sdk (App_button_init buttons (length buttons) (APP_TIMER_TICKS env 50)) s3;
          s5 = sdk App_button_enable s4;
          s6 = sdk (Nrf_sdh_ble_default_cfg_set APP_BLE_CONN_CFG_TAG 0) s5;
          s7 = sdk (Nrf_sdh_ble_enable (ram_start_set env)) s6;
          s8 = gap_params_init s7;
          s9 = sdk Nrf_ble_gatt_init s8;
          s10 = services_init s9;
          s11 = advertising_init env s10;
          s12 = conn_params_init env s11
      in advertising_start s12)"

subsection \<open>Events after start-up\<close>

text \<open>The SDK delivers BLE events to \<open>ble_evt_handler\<close> and button edges to
  \<open>button_handler\<close>, one at a time, each handler running to completion.\<close>

datatype event = Ble_evt ble_evt_t | Button_evt uint8_t uint8_t

fun dispatch :: "event \<Rightarrow> app_state \<Rightarrow> app_state" where
  "dispatch (Ble_evt p_ble_evt) s = ble_evt_handler p_ble_evt s"
| "dispatch (Button_evt pin action) s = button_handler pin action s"

fun run_events :: "event list \<Rightarrow> app_state \<Rightarrow> app_state" where
  "run_events [] s = s"
| "run_events (e # es) s = run_events es (dispatch e s)"

subsection \<open>The state machine of the specification\<close>

text \<open>
  The specification's link states. A "connected" report leads to \<open>Connected\<close> with the
  reported handle, a "disconnected" report to \<open>Advertising\<close>; a button edge and any
  other BLE event leave the state unchanged. \<open>spec_tracker\<close> is what the specification
  says the connection state tracker holds in each state.
\<close>

datatype link_state = Idle | Advertising | Connected uint16_t

fun spec_link_step :: "link_state \<Rightarrow> event \<Rightarrow> link_state" where
  "spec_link_step st (Ble_evt e) =
     (if evt_id e = BLE_GAP_EVT_CONNECTED then Connected (conn_handle e)
      else if evt_id e = BLE_GAP_EVT_DISCONNECTED then Advertising
      else st)"
| "spec_link_step st (Button_evt pin action) = st"

fun spec_link_run :: "link_state \<Rightarrow> event list \<Rightarrow> link_state" where
  "spec_link_run st [] = st"
| "spec_link_run st (e # es) = spec_link_run (spec_link_step st e) es"

fun spec_tracker :: "link_state \<Rightarrow> uint16_t" where
  "spec_tracker (Connected h) = h"
| "spec_tracker Idle = BLE_CONN_HANDLE_INVALID"
| "spec_tracker Advertising = BLE_CONN_HANDLE_INVALID"

subsection \<open>Reading the list of SDK calls\<close>

text \<open>The arguments of every call of one SDK function, in the order of the calls.\<close>

definition ppcp_params :: "sdk_call list \<Rightarrow> ble_gap_conn_params_t list" where
  "ppcp_params cs =
     concat (map (\<lambda>c. case c of Sd_ble_gap_ppcp_set p \<Rightarrow> [p] | _ \<Rightarrow> []) cs)"

definition service_adds :: "sdk_call list \<Rightarrow> (uint8_t \<times> ble_uuid_t) list" where
  "service_adds cs =
     concat (map (\<lambda>c. case c of Sd_ble_gatts_service_add t u \<Rightarrow> [(t, u)] | _ \<Rightarrow> []) cs)"

definition characteristic_adds :: "sdk_call list \<Rightarrow> (uint16_t \<times> ble_add_char_params_t) list" where
  "characteristic_adds cs =
     concat (map (\<lambda>c. case c of Characteristic_add h p \<Rightarrow> [(h, p)] | _ \<Rightarrow> []) cs)"

subsection \<open>Sample inputs\<close>

text \<open>
  Concrete SDK answers and events on which the theorems are evaluated. The sample
  encoder writes one element (length 2, type 1, the flags byte) when the buffer has
  room for it and reports a length of 0 otherwise.
\<close>

definition sample_encode :: "ble_advdata_t \<Rightarrow> ble_data_t \<Rightarrow> ble_data_t" where
  "sample_encode a d =
     (if 3 \<le> unat (len d) then \<lparr>p_data = [2, 1, flags a] @ drop 3 (p_data d), len = 3\<rparr>
      else d\<lparr>len := 0\<rparr>)"

definition sample_env :: sdk_env where
  "sample_env =
     \<lparr>APP_TIMER_TICKS = (\<lambda>ms. of_nat ((ms * 16384 + 500) div 1000)),
      ram_start_set = 0x20002A98,
      vs_uuid_type = 2,
      new_service_handle = 0x000E,
      new_char_handles =
        \<lparr>value_handle = 0x0010, user_desc_handle = 0, cccd_handle = 0x0011, sccd_handle = 0\<rparr>,
      ble_advdata_encode = sample_encode,
      new_adv_handle = 0\<rparr>"

definition sample_connected :: ble_evt_t where
  "sample_connected = \<lparr>evt_id = BLE_GAP_EVT_CONNECTED, conn_handle = 0\<rparr>"

definition sample_disconnected :: ble_evt_t where
  "sample_disconnected = \<lparr>evt_id = BLE_GAP_EVT_DISCONNECTED, conn_handle = 0\<rparr>"

section \<open>Properties\<close>

subsection \<open>Effect of each function on each part of the state\<close>

lemma sdk_simps:
  "calls (sdk c s) = calls s @ [c]"
  "leds (sdk c s) = leds s"
  "m_conn_handle (sdk c s) = m_conn_handle s"
  "m_adv_handle (sdk c s) = m_adv_handle s"
  "m_adv_data (sdk c s) = m_adv_data s"
  "button_char_handles (sdk c s) = button_char_handles s"
  by (simp_all add: sdk_def)

lemma led_on_simps:
  "calls (bsp_board_led_on i s) = calls s @ [Bsp_board_led_on i]"
  "leds (bsp_board_led_on i s) = (leds s)(i := True)"
  "m_conn_handle (bsp_board_led_on i s) = m_conn_handle s"
  "m_adv_handle (bsp_board_led_on i s) = m_adv_handle s"
  "m_adv_data (bsp_board_led_on i s) = m_adv_data s"
  "button_char_handles (bsp_board_led_on i s) = button_char_handles s"
  by (simp_all add: bsp_board_led_on_def sdk_def)

lemma led_off_simps:
  "calls (bsp_board_led_off i s) = calls s @ [Bsp_board_led_off i]"
  "leds (bsp_board_led_off i s) = (leds s)(i := False)"
  "m_conn_handle (bsp_board_led_off i s) = m_conn_handle s"
  "m_adv_handle (bsp_board_led_off i s) = m_adv_handle s"
  "m_adv_data (bsp_board_led_off i s) = m_adv_data s"
  "button_char_handles (bsp_board_led_off i s) = button_char_handles s"
  by (simp_all add: bsp_board_led_off_def sdk_def)

lemma advertising_start_simps:
  "calls (advertising_start s) =
     calls s @ [Sd_ble_gap_adv_start (m_adv_handle s) APP_BLE_CONN_CFG_TAG,
                Bsp_board_led_on BSP_BOARD_LED_2]"
  "leds (advertising_start s) = (leds s)(BSP_BOARD_LED_2 := True)"
  "m_conn_handle (advertising_start s) = m_conn_handle s"
  "m_adv_handle (advertising_start s) = m_adv_handle s"
  "m_adv_data (advertising_start s) = m_adv_data s"
  "button_char_handles (advertising_start s) = button_char_handles s"
  by (simp_all add: advertising_start_def led_on_simps sdk_simps)

lemma send_button_simps:
  "calls (send_button b s) =
     calls s @ [Sd_ble_gatts_hvx (m_conn_handle s)
                  \<lparr>hvx_handle = value_handle (button_char_handles s),
                   hvx_type = BLE_GATT_HVX_NOTIFICATION, hvx_offset = 0, hvx_len = 1,
                   hvx_data = [b]\<rparr>]"
  "leds (send_button b s) = leds s"
  "m_conn_handle (send_button b s) = m_conn_handle s"
  "m_adv_handle (send_button b s) = m_adv_handle s"
  "m_adv_data (send_button b s) = m_adv_data s"
  "button_char_handles (send_button b s) = button_char_handles s"
  by (simp_all add: send_button_def sdk_simps)

lemma gap_params_init_simps:
  "calls (gap_params_init s) =
     calls s @ [Sd_ble_gap_device_name_set BLE_GAP_CONN_SEC_MODE_SET_OPEN DEVICE_NAME
                  (length DEVICE_NAME),
                Sd_ble_gap_ppcp_set
                  \<lparr>min_conn_interval = MIN_CONN_INTERVAL,
                   max_conn_interval = MIN_CONN_INTERVAL,
                   slave_latency = SLAVE_LATENCY,
                   conn_sup_timeout = CONN_SUP_TIMEOUT\<rparr>]"
  "leds (gap_params_init s) = leds s"
  "m_conn_handle (gap_params_init s) = m_conn_handle s"
  "m_adv_handle (gap_params_init s) = m_adv_handle s"
  "m_adv_data (gap_params_init s) = m_adv_data s"
  "button_char_handles (gap_params_init s) = button_char_handles s"
  by (simp_all add: gap_params_init_def Let_def sdk_simps zeroed_gap_conn_params_def)

lemma services_init_simps:
  "calls (services_init s) = calls s @ [Nrf_ble_qwr_init]"
  "leds (services_init s) = leds s"
  "m_conn_handle (services_init s) = m_conn_handle s"
  "m_adv_handle (services_init s) = m_adv_handle s"
  "m_adv_data (services_init s) = m_adv_data s"
  "button_char_handles (services_init s) = button_char_handles s"
  by (simp_all add: services_init_def sdk_simps)

lemma conn_params_init_simps:
  "calls (conn_params_init env s) =
     calls s @ [Ble_conn_params_init
                  \<lparr>p_conn_params = None,
                   first_conn_params_update_delay = APP_TIMER_TICKS env 20000,
                   next_conn_params_update_delay = APP_TIMER_TICKS env 5000,
                   max_conn_params_update_count = MAX_CONN_PARAMS_UPDATE_COUNT,
                   start_on_notify_cccd_handle = BLE_GATT_HANDLE_INVALID,
                   disconnect_on_fail = True, evt_handler = False, error_handler = False\<rparr>]"
  "leds (conn_params_init env s) = leds s"
  "m_conn_handle (conn_params_init env s) = m_conn_handle s"
  "m_adv_handle (conn_params_init env s) = m_adv_handle s"
  "m_adv_data (conn_params_init env s) = m_adv_data s"
  "button_char_handles (conn_params_init env s) = button_char_handles s"
  by (simp_all add: conn_params_init_def Let_def sdk_simps zeroed_conn_params_init_def)

lemma advertising_init_other:
  "leds (advertising_init env s) = leds s"
  "m_conn_handle (advertising_init env s) = m_conn_handle s"
  "m_adv_handle (advertising_init env s) = new_adv_handle env"
  "button_char_handles (advertising_init env s) = new_char_handles env"
  by (simp_all add: advertising_init_def Let_def sdk_simps)

lemma advertising_init_adv_data:
  "m_adv_data (advertising_init env s) =
     \<lparr>adv_data =
        ble_advdata_encode env
          (zeroed_advdata\<lparr>name_type := BLE_ADVDATA_FULL_NAME, include_appearance := True,
                           flags := BLE_GAP_ADV_FLAGS_LE_ONLY_GENERAL_DISC_MODE\<rparr>)
          (adv_data (m_adv_data s)),
      scan_rsp_data =
        ble_advdata_encode env
          (zeroed_advdata\<lparr>uuids_complete :=
             [\<lparr>uuid = UUID_SERVICE, uuid_type = vs_uuid_type env\<rparr>]\<rparr>)
          (scan_rsp_data (m_adv_data s))\<rparr>"
  by (simp add: advertising_init_def Let_def sdk_simps)

lemma advertising_init_calls:
  "calls (advertising_init env s) =
     calls s @
       [Sd_ble_uuid_vs_add UUID_BASE,
        Sd_ble_gatts_service_add BLE_GATTS_SRVC_TYPE_PRIMARY
          \<lparr>uuid = UUID_SERVICE, uuid_type = vs_uuid_type env\<rparr>,
        Characteristic_add (new_service_handle env)
          \<lparr>char_uuid = UUID_BUTTON_CHAR, char_uuid_type = vs_uuid_type env, max_len = 1,
           init_len = 1, p_init_value = None, is_var_len = False,
           char_props =
             \<lparr>broadcast = False, read = True, write_wo_resp = False, write' = False,
              notify = True, indicate = False, auth_signed_wr = False\<rparr>,
           char_ext_props = \<lparr>reliable_wr = False, wr_aux = False\<rparr>,
           is_defered_read = False, is_defered_write = False,
           read_access = SEC_OPEN, write_access = SEC_NO_ACCESS,
           cccd_write_access = SEC_OPEN,
           is_value_user = False, p_user_descr = None, p_presentation_format = None\<rparr>,
        Ble_advdata_encode
          (zeroed_advdata\<lparr>name_type := BLE_ADVDATA_FULL_NAME, include_appearance := True,
                           flags := BLE_GAP_ADV_FLAGS_LE_ONLY_GENERAL_DISC_MODE\<rparr>)
          (adv_data (m_adv_data s)),
        Ble_advdata_encode
          (zeroed_advdata\<lparr>uuids_complete :=
             [\<lparr>uuid = UUID_SERVICE, uuid_type = vs_uuid_type env\<rparr>]\<rparr>)
          (scan_rsp_data (m_adv_data s)),
        Sd_ble_gap_adv_set_configure (m_adv_handle s)
          (m_adv_data (advertising_init env s))
          \<lparr>properties_type = BLE_GAP_ADV_TYPE_CONNECTABLE_SCANNABLE_UNDIRECTED,
           p_peer_addr = None, interval = APP_ADV_INTERVAL, duration = APP_ADV_DURATION,
           max_adv_evts = 0, filter_policy = BLE_GAP_ADV_FP_ANY,
           primary_phy = BLE_GAP_PHY_1MBPS, secondary_phy = 0\<rparr>]"
  by (simp add: advertising_init_def Let_def sdk_simps zeroed_add_char_params_def
      zeroed_adv_params_def)

text \<open>The calls of start-up: those before \<open>gap_params_init\<close>, then each initialisation
  function in turn.\<close>

lemma main_calls:
  "calls (main env s) =
     calls (advertising_start (conn_params_init env (advertising_init env
       (services_init (sdk Nrf_ble_gatt_init (gap_params_init
          (s\<lparr>calls := calls s @
               [Bsp_board_init BSP_INIT_LEDS, App_timer_init, Nrf_sdh_enable_request,
                App_button_init
                  [\<lparr>pin_no = BSP_BOARD_BUTTON_0, active_state = False,
                    pull_cfg = BUTTON_PULL\<rparr>]
                  1 (APP_TIMER_TICKS env 50),
                App_button_enable,
                Nrf_sdh_ble_default_cfg_set APP_BLE_CONN_CFG_TAG 0,
                Nrf_sdh_ble_enable (ram_start_set env)]\<rparr>)))))))"
  by (simp add: main_def Let_def sdk_simps gap_params_init_simps services_init_simps
      advertising_init_calls advertising_init_other advertising_init_adv_data
      conn_params_init_simps advertising_start_simps)

lemma main_other:
  "m_conn_handle (main env s) = m_conn_handle s"
  "leds (main env s) = (\<lambda>_. False)(BSP_BOARD_LED_2 := True)"
  "m_adv_handle (main env s) = new_adv_handle env"
  "button_char_handles (main env s) = new_char_handles env"
  by (simp_all add: main_def Let_def sdk_simps gap_params_init_simps services_init_simps
      advertising_init_other conn_params_init_simps advertising_start_simps)

lemma button_consts: "APP_BUTTON_PUSH \<noteq> APP_BUTTON_RELEASE"
  by (simp add: APP_BUTTON_PUSH_def APP_BUTTON_RELEASE_def)

lemma evt_consts: "BLE_GAP_EVT_CONNECTED \<noteq> BLE_GAP_EVT_DISCONNECTED"
  by (simp add: BLE_GAP_EVT_CONNECTED_def BLE_GAP_EVT_DISCONNECTED_def)

lemma led_consts:
  "BSP_BOARD_LED_1 \<noteq> BSP_BOARD_LED_2" "BSP_BOARD_LED_1 \<noteq> BSP_BOARD_LED_3"
  "BSP_BOARD_LED_2 \<noteq> BSP_BOARD_LED_3"
  by (simp_all add: BSP_BOARD_LED_1_def BSP_BOARD_LED_2_def BSP_BOARD_LED_3_def)

lemma interval_values:
  "MIN_CONN_INTERVAL = 80" "MAX_CONN_INTERVAL = 160" "CONN_SUP_TIMEOUT = 400"
  by (simp_all add: MIN_CONN_INTERVAL_def MAX_CONN_INTERVAL_def CONN_SUP_TIMEOUT_def
      MSEC_TO_UNITS_def UNIT_1_25_MS_def UNIT_10_MS_def)

subsection \<open>Start-up\<close>

text \<open>
  C1. At start-up the identity configuration is to pass \<open>MIN_CONN_INTERVAL\<close> (100 ms) as
  the lower bound and \<open>MAX_CONN_INTERVAL\<close> (200 ms) as the upper bound of the preferred
  connection interval. Start-up makes a single \<open>sd_ble_gap_ppcp_set\<close> call; its lower
  bound is \<open>MIN_CONN_INTERVAL\<close> (80 units of 1.25 ms), and its upper bound is 80 as well,
  which is \<open>MIN_CONN_INTERVAL\<close> and not \<open>MAX_CONN_INTERVAL\<close> (160).
\<close>

theorem startup_ppcp_max_interval:
  "ppcp_params (calls (main env boot_state)) =
     [\<lparr>min_conn_interval = MIN_CONN_INTERVAL, max_conn_interval = MIN_CONN_INTERVAL,
       slave_latency = SLAVE_LATENCY, conn_sup_timeout = CONN_SUP_TIMEOUT\<rparr>] \<and>
   MIN_CONN_INTERVAL = 80 \<and> MAX_CONN_INTERVAL = 160 \<and>
   MIN_CONN_INTERVAL \<noteq> MAX_CONN_INTERVAL"
  by (simp add: main_calls advertising_start_simps conn_params_init_simps
      advertising_init_calls services_init_simps sdk_simps gap_params_init_simps
      ppcp_params_def boot_state_def interval_values)

text \<open>
  C7. Start-up registers exactly one service, a primary one, and exactly one
  characteristic. The characteristic is registered with initial and maximum length 1
  and no variable length, with the properties read and notify and no other, with open
  read access and with open write access to its CCCD.
\<close>

theorem startup_registers_one_service_one_characteristic:
  "service_adds (calls (main env boot_state)) =
     [(BLE_GATTS_SRVC_TYPE_PRIMARY, \<lparr>uuid = UUID_SERVICE, uuid_type = vs_uuid_type env\<rparr>)] \<and>
   characteristic_adds (calls (main env boot_state)) =
     [(new_service_handle env,
       \<lparr>char_uuid = UUID_BUTTON_CHAR, char_uuid_type = vs_uuid_type env, max_len = 1,
        init_len = 1, p_init_value = None, is_var_len = False,
        char_props =
          \<lparr>broadcast = False, read = True, write_wo_resp = False, write' = False,
           notify = True, indicate = False, auth_signed_wr = False\<rparr>,
        char_ext_props = \<lparr>reliable_wr = False, wr_aux = False\<rparr>,
        is_defered_read = False, is_defered_write = False,
        read_access = SEC_OPEN, write_access = SEC_NO_ACCESS,
        cccd_write_access = SEC_OPEN,
        is_value_user = False, p_user_descr = None, p_presentation_format = None\<rparr>)]"
  by (simp add: main_calls advertising_start_simps conn_params_init_simps
      advertising_init_calls services_init_simps sdk_simps gap_params_init_simps
      service_adds_def characteristic_adds_def boot_state_def)

subsection \<open>The button handler\<close>

text \<open>
  C3. For an edge on the monitored button, in every state (connected or not): a
  pressed edge turns the button LED (LED 1) on and then submits a notification of one
  byte, the pressed value, for the characteristic's value handle and the current
  connection handle; a released edge turns the LED off and then submits a notification
  of one byte, the released value. Nothing else is called.
\<close>

theorem button_edge_led_and_notification:
  "leds (button_handler BSP_BOARD_BUTTON_0 APP_BUTTON_PUSH s) BSP_BOARD_LED_1 = True \<and>
   calls (button_handler BSP_BOARD_BUTTON_0 APP_BUTTON_PUSH s) =
     calls s @ [Bsp_board_led_on BSP_BOARD_LED_1,
                Sd_ble_gatts_hvx (m_conn_handle s)
                  \<lparr>hvx_handle = value_handle (button_char_handles s),
                   hvx_type = BLE_GATT_HVX_NOTIFICATION, hvx_offset = 0, hvx_len = 1,
                   hvx_data = [APP_BUTTON_PUSH]\<rparr>] \<and>
   leds (button_handler BSP_BOARD_BUTTON_0 APP_BUTTON_RELEASE s) BSP_BOARD_LED_1 = False \<and>
   calls (button_handler BSP_BOARD_BUTTON_0 APP_BUTTON_RELEASE s) =
     calls s @ [Bsp_board_led_off BSP_BOARD_LED_1,
                Sd_ble_gatts_hvx (m_conn_handle s)
                  \<lparr>hvx_handle = value_handle (button_char_handles s),
                   hvx_type = BLE_GATT_HVX_NOTIFICATION, hvx_offset = 0, hvx_len = 1,
                   hvx_data = [APP_BUTTON_RELEASE]\<rparr>]"
  using button_consts
  by (simp add: button_handler_def send_button_simps led_on_simps led_off_simps)

text \<open>
  C4. When the button is pressed while \<open>m_conn_handle\<close> is the invalid sentinel, the
  button LED is turned on, the notification is still submitted (with the sentinel as
  connection handle), and \<open>m_conn_handle\<close> is the sentinel afterwards.
\<close>

theorem button_press_without_connection:
  assumes "m_conn_handle s = BLE_CONN_HANDLE_INVALID"
  shows "leds (button_handler BSP_BOARD_BUTTON_0 APP_BUTTON_PUSH s) BSP_BOARD_LED_1 = True \<and>
         calls (button_handler BSP_BOARD_BUTTON_0 APP_BUTTON_PUSH s) =
           calls s @ [Bsp_board_led_on BSP_BOARD_LED_1,
                      Sd_ble_gatts_hvx BLE_CONN_HANDLE_INVALID
                        \<lparr>hvx_handle = value_handle (button_char_handles s),
                         hvx_type = BLE_GATT_HVX_NOTIFICATION, hvx_offset = 0, hvx_len = 1,
                         hvx_data = [APP_BUTTON_PUSH]\<rparr>] \<and>
         m_conn_handle (button_handler BSP_BOARD_BUTTON_0 APP_BUTTON_PUSH s) =
           m_conn_handle s"
  using assms
  by (simp add: button_handler_def send_button_simps led_on_simps)

theorem button_press_without_connection_witness:
  "m_conn_handle boot_state = BLE_CONN_HANDLE_INVALID \<and>
   leds (button_handler BSP_BOARD_BUTTON_0 APP_BUTTON_PUSH boot_state) BSP_BOARD_LED_1 = True \<and>
   calls (button_handler BSP_BOARD_BUTTON_0 APP_BUTTON_PUSH boot_state) =
     [Bsp_board_led_on BSP_BOARD_LED_1,
      Sd_ble_gatts_hvx 0xFFFF
        \<lparr>hvx_handle = 0, hvx_type = 1, hvx_offset = 0, hvx_len = 1, hvx_data = [1]\<rparr>] \<and>
   m_conn_handle (button_handler BSP_BOARD_BUTTON_0 APP_BUTTON_PUSH boot_state) = 0xFFFF"
proof -
  have h: "m_conn_handle boot_state = BLE_CONN_HANDLE_INVALID"
    by (simp add: boot_state_def)
  show ?thesis
    using h button_press_without_connection [OF h]
    by (simp add: boot_state_def BLE_CONN_HANDLE_INVALID_def BLE_GATT_HVX_NOTIFICATION_def
        APP_BUTTON_PUSH_def)
qed

text \<open>
  C10. A button event for a pin other than \<open>BSP_BOARD_BUTTON_0\<close> changes nothing,
  pressed or released: no LED changes and nothing is called.
\<close>

theorem other_pin_ignored:
  assumes "pin \<noteq> BSP_BOARD_BUTTON_0"
  shows "button_handler pin action s = s"
  using assms by (simp add: button_handler_def)

theorem other_pin_ignored_witness:
  "(1::uint8_t) \<noteq> BSP_BOARD_BUTTON_0 \<and>
   button_handler 1 APP_BUTTON_PUSH boot_state = boot_state \<and>
   button_handler 1 APP_BUTTON_RELEASE boot_state = boot_state"
proof -
  have h: "(1::uint8_t) \<noteq> BSP_BOARD_BUTTON_0"
    by (simp add: BSP_BOARD_BUTTON_0_def)
  show ?thesis
    using h other_pin_ignored [OF h, of APP_BUTTON_PUSH boot_state]
      other_pin_ignored [OF h, of APP_BUTTON_RELEASE boot_state]
    by simp
qed

subsection \<open>The BLE event handler\<close>

text \<open>
  C6. On a connected event, in every state: the advertising LED (LED 2) is turned
  off, the connected LED (LED 3) is turned on, \<open>m_conn_handle\<close> becomes the event's
  connection handle, and the queued-write module is given that handle; the three calls
  are made in this order and no other.
\<close>

theorem connect_stores_handle:
  assumes "evt_id e = BLE_GAP_EVT_CONNECTED"
  shows "leds (ble_evt_handler e s) BSP_BOARD_LED_2 = False \<and>
         leds (ble_evt_handler e s) BSP_BOARD_LED_3 = True \<and>
         m_conn_handle (ble_evt_handler e s) = conn_handle e \<and>
         calls (ble_evt_handler e s) =
           calls s @ [Bsp_board_led_off BSP_BOARD_LED_2,
                      Bsp_board_led_on BSP_BOARD_LED_3,
                      Nrf_ble_qwr_conn_handle_assign (conn_handle e)]"
  using assms led_consts
  by (simp add: ble_evt_handler_def Let_def sdk_simps led_on_simps led_off_simps)

theorem connect_stores_handle_witness:
  "evt_id sample_connected = BLE_GAP_EVT_CONNECTED \<and>
   leds (ble_evt_handler sample_connected (main sample_env boot_state)) BSP_BOARD_LED_2 = False \<and>
   leds (ble_evt_handler sample_connected (main sample_env boot_state)) BSP_BOARD_LED_3 = True \<and>
   m_conn_handle (ble_evt_handler sample_connected (main sample_env boot_state)) = 0"
proof -
  have h: "evt_id sample_connected = BLE_GAP_EVT_CONNECTED"
    by (simp add: sample_connected_def)
  show ?thesis
    using h connect_stores_handle [OF h, of "main sample_env boot_state"]
    by (simp add: sample_connected_def)
qed

text \<open>
  C5. On a disconnected event, in every state (so also while connected): the
  connected LED (LED 3) is turned off, then \<open>m_conn_handle\<close> is set to the invalid
  sentinel, then \<open>advertising_start\<close> runs on that state, which starts advertising and
  turns the advertising LED (LED 2) on. The handler does this by itself: the three
  calls are made in this order and no other.
\<close>

theorem disconnect_restarts_advertising:
  assumes "evt_id e = BLE_GAP_EVT_DISCONNECTED"
  shows "ble_evt_handler e s =
           advertising_start
             ((bsp_board_led_off BSP_BOARD_LED_3 s)
                \<lparr>m_conn_handle := BLE_CONN_HANDLE_INVALID\<rparr>) \<and>
         calls (ble_evt_handler e s) =
           calls s @ [Bsp_board_led_off BSP_BOARD_LED_3,
                      Sd_ble_gap_adv_start (m_adv_handle s) APP_BLE_CONN_CFG_TAG,
                      Bsp_board_led_on BSP_BOARD_LED_2] \<and>
         leds (ble_evt_handler e s) BSP_BOARD_LED_3 = False \<and>
         m_conn_handle (ble_evt_handler e s) = BLE_CONN_HANDLE_INVALID \<and>
         leds (ble_evt_handler e s) BSP_BOARD_LED_2 = True"
  using assms evt_consts led_consts
  by (simp add: ble_evt_handler_def Let_def advertising_start_simps led_off_simps)

theorem disconnect_restarts_advertising_witness:
  "evt_id sample_disconnected = BLE_GAP_EVT_DISCONNECTED \<and>
   m_conn_handle (ble_evt_handler sample_connected (main sample_env boot_state)) = 0 \<and>
   m_conn_handle
     (ble_evt_handler sample_disconnected
        (ble_evt_handler sample_connected (main sample_env boot_state))) = 0xFFFF \<and>
   leds
     (ble_evt_handler sample_disconnected
        (ble_evt_handler sample_connected (main sample_env boot_state))) BSP_BOARD_LED_3 = False \<and>
   leds
     (ble_evt_handler sample_disconnected
        (ble_evt_handler sample_connected (main sample_env boot_state))) BSP_BOARD_LED_2 = True"
proof -
  let ?s = "ble_evt_handler sample_connected (main sample_env boot_state)"
  have h: "evt_id sample_disconnected = BLE_GAP_EVT_DISCONNECTED"
    by (simp add: sample_disconnected_def)
  have c: "m_conn_handle ?s = 0"
    by (simp add: ble_evt_handler_def sample_connected_def Let_def sdk_simps
        led_on_simps led_off_simps)
  show ?thesis
    using h c disconnect_restarts_advertising [OF h, of ?s, THEN conjunct2]
    by (simp add: BLE_CONN_HANDLE_INVALID_def)
qed

text \<open>
  C9. A BLE event whose identifier is neither connected nor disconnected changes
  nothing: the connection handle, the LEDs, the advertising handle and data and the
  list of calls (so nothing starts or stops advertising) are as before.
\<close>

theorem other_ble_event_ignored:
  assumes "evt_id e \<noteq> BLE_GAP_EVT_CONNECTED" and "evt_id e \<noteq> BLE_GAP_EVT_DISCONNECTED"
  shows "ble_evt_handler e s = s"
  using assms by (simp add: ble_evt_handler_def)

theorem other_ble_event_ignored_witness:
  "evt_id \<lparr>evt_id = 0x12, conn_handle = 0\<rparr> \<noteq> BLE_GAP_EVT_CONNECTED \<and>
   evt_id \<lparr>evt_id = 0x12, conn_handle = 0\<rparr> \<noteq> BLE_GAP_EVT_DISCONNECTED \<and>
   ble_evt_handler \<lparr>evt_id = 0x12, conn_handle = 0\<rparr> boot_state = boot_state"
proof -
  have h1: "evt_id \<lparr>evt_id = 0x12, conn_handle = 0\<rparr> \<noteq> BLE_GAP_EVT_CONNECTED"
    by (simp add: BLE_GAP_EVT_CONNECTED_def)
  have h2: "evt_id \<lparr>evt_id = 0x12, conn_handle = 0\<rparr> \<noteq> BLE_GAP_EVT_DISCONNECTED"
    by (simp add: BLE_GAP_EVT_DISCONNECTED_def)
  show ?thesis
    using h1 h2 other_ble_event_ignored [OF h1 h2, of boot_state] by simp
qed

subsection \<open>The connection handle over sequences of events\<close>

lemma dispatch_tracks:
  "m_conn_handle s = spec_tracker st \<Longrightarrow>
   m_conn_handle (dispatch e s) = spec_tracker (spec_link_step st e)"
  by (cases e)
     (simp_all add: ble_evt_handler_def button_handler_def Let_def sdk_simps
        advertising_start_simps send_button_simps led_on_simps led_off_simps)

lemma run_events_tracks:
  "m_conn_handle s = spec_tracker st \<Longrightarrow>
   m_conn_handle (run_events es s) = spec_tracker (spec_link_run st es)"
proof (induction es arbitrary: s st)
  case Nil
  then show ?case by simp
next
  case (Cons e es)
  from Cons.prems have "m_conn_handle (dispatch e s) = spec_tracker (spec_link_step st e)"
    by (rule dispatch_tracks)
  then show ?case using Cons.IH by simp
qed

lemma run_events_append: "run_events (es @ fs) s = run_events fs (run_events es s)"
  by (induction es arbitrary: s) simp_all

text \<open>
  C2. Before start-up (\<open>Idle\<close>) \<open>m_conn_handle\<close> is the invalid sentinel. After
  start-up and any sequence of events (connected, disconnected, other BLE events and
  button edges, in any order) \<open>m_conn_handle\<close> is what the specification's state
  machine prescribes: the handle of the most recent connected event in state
  \<open>Connected\<close>, the sentinel in state \<open>Advertising\<close>. Right after a disconnected event
  it is the sentinel, whatever came before.
\<close>

theorem conn_handle_follows_link_state:
  "m_conn_handle boot_state = spec_tracker Idle \<and>
   m_conn_handle (run_events es (main env boot_state)) =
     spec_tracker (spec_link_run Advertising es) \<and>
   m_conn_handle
     (run_events (es @ [Ble_evt \<lparr>evt_id = BLE_GAP_EVT_DISCONNECTED, conn_handle = h\<rparr>])
        (main env boot_state)) = BLE_CONN_HANDLE_INVALID"
proof -
  have boot: "m_conn_handle boot_state = BLE_CONN_HANDLE_INVALID"
    by (simp add: boot_state_def)
  have start: "m_conn_handle (main env boot_state) = spec_tracker Advertising"
    by (simp add: main_other boot)
  have run: "m_conn_handle (run_events es (main env boot_state)) =
      spec_tracker (spec_link_run Advertising es)"
    using start by (rule run_events_tracks)
  have disc: "m_conn_handle
      (ble_evt_handler \<lparr>evt_id = BLE_GAP_EVT_DISCONNECTED, conn_handle = h\<rparr> s) =
      BLE_CONN_HANDLE_INVALID" for s
    using evt_consts by (simp add: ble_evt_handler_def Let_def advertising_start_simps)
  show ?thesis using boot run by (simp add: run_events_append disc)
qed

text \<open>A run on concrete events: connect with handle 5, press the button, disconnect.\<close>

lemma run_events_example:
  "m_conn_handle
     (run_events
        [Ble_evt \<lparr>evt_id = BLE_GAP_EVT_CONNECTED, conn_handle = 5\<rparr>,
         Button_evt BSP_BOARD_BUTTON_0 APP_BUTTON_PUSH]
        (main sample_env boot_state)) = 5 \<and>
   m_conn_handle
     (run_events
        [Ble_evt \<lparr>evt_id = BLE_GAP_EVT_CONNECTED, conn_handle = 5\<rparr>,
         Button_evt BSP_BOARD_BUTTON_0 APP_BUTTON_PUSH,
         Ble_evt \<lparr>evt_id = BLE_GAP_EVT_DISCONNECTED, conn_handle = 5\<rparr>]
        (main sample_env boot_state)) = 0xFFFF \<and>
   spec_link_run Advertising
     [Ble_evt \<lparr>evt_id = BLE_GAP_EVT_CONNECTED, conn_handle = 5\<rparr>,
      Button_evt BSP_BOARD_BUTTON_0 APP_BUTTON_PUSH] = Connected 5"
  using evt_consts
  by (simp add: ble_evt_handler_def button_handler_def Let_def sdk_simps
      advertising_start_simps send_button_simps led_on_simps led_off_simps
      BLE_CONN_HANDLE_INVALID_def)

end
